theory Spec2Isabelle
  imports Main
begin

section \<open>Data of the discovery pipeline and of the router\<close>

text \<open>
  The program is \<^verbatim>\<open>src/index.js\<close>: a handler of the Docker event stream that fills the
  registry \<^verbatim>\<open>db\<close> (a JavaScript \<^verbatim>\<open>Map\<close>), an Express handler that routes plain HTTP requests
  by subdomain, and an \<^verbatim>\<open>upgrade\<close> handler that routes WebSocket upgrades.

  A JavaScript object whose properties the code enumerates (\<^verbatim>\<open>Object.values\<close>,
  \<^verbatim>\<open>Object.keys\<close>) is an association list of its own properties in enumeration order.
  For property names that are not array indices, which holds for every key ending in
  \<^verbatim>\<open>/tcp\<close>, this is the order of the JSON document the object was parsed from.
  A string is a list of code units below 256.
\<close>

type_synonym 'a js_object = "(string \<times> 'a) list"

text \<open>
  The inspection result, typed after the Docker Engine API: \<^verbatim>\<open>NetworkSettings\<close>,
  \<^verbatim>\<open>Config\<close> and the values of \<^verbatim>\<open>Networks\<close> are nullable, \<^verbatim>\<open>ExposedPorts\<close> may be absent, and
  the values of \<^verbatim>\<open>ExposedPorts\<close> are always the empty object \<^verbatim>\<open>{}\<close>, which is truthy.
  \<open>None\<close> stands for \<^verbatim>\<open>undefined\<close> or \<^verbatim>\<open>null\<close>; for \<^verbatim>\<open>Name\<close> it is the missing property,
  \<^verbatim>\<open>undefined\<close>.
\<close>

record endpoint =
  IPAddress :: "string option"

record network_settings =
  Networks :: "endpoint option js_object option"

record config =
  ExposedPorts :: "unit js_object option"

record container_info =
  Name :: "string option"
  NetworkSettings :: "network_settings option"
  Config :: "config option"

text \<open>
  The numbers that \<^verbatim>\<open>parseInt\<close> returns, \<^verbatim>\<open>NaN\<close> apart: a double whose value is an integer,
  or an infinity.
\<close>

datatype number = Num int | PosInfinity | NegInfinity

text \<open>The object literal of line 89, the value stored in \<^verbatim>\<open>db\<close>.\<close>

record service =
  containerName :: string
  ipAddress :: string
  defaultPort :: number
  target :: string

type_synonym db = "string \<rightharpoonup> service"

text \<open>
  What \<^verbatim>\<open>JSON.parse(chunk.toString())\<close> yields for a chunk of the event stream: the chunk
  itself may be falsy, the text may not be JSON, the value may be \<^verbatim>\<open>null\<close>, or it is a value
  whose properties \<^verbatim>\<open>Type\<close>, \<^verbatim>\<open>Action\<close> and \<^verbatim>\<open>Actor\<close> can be read. A \<^verbatim>\<open>Type\<close> or \<^verbatim>\<open>Action\<close>
  that is not a string equals no string and is \<open>None\<close>; \<^verbatim>\<open>Actor\<close> is \<open>None\<close> when it is
  \<^verbatim>\<open>undefined\<close> or \<^verbatim>\<open>null\<close>; \<^verbatim>\<open>ID\<close> is the string that the runtime emits, or \<open>None\<close> when it
  is missing.
\<close>

record actor =
  ID :: "string option"

record event =
  Type :: "string option"
  Action :: "string option"
  Actor :: "actor option"

datatype chunk = Falsy | Unparsable | JsonNull | JsonEvent event

datatype exn = SyntaxError | TypeError | DockerError

datatype console = Log string | Warn string | Error string

text \<open>
  The runtime, as the handler sees it: \<^verbatim>\<open>docker.getContainer(id).inspect()\<close> resolves to an
  inspection result or rejects.
\<close>

type_synonym docker = "string \<Rightarrow> exn + container_info"

text \<open>
  A block of statements either throws, with the console lines written before the throw,
  or completes, with its console lines and its result.
\<close>

type_synonym 'a completion = "(console list \<times> exn) + (console list \<times> 'a)"

section \<open>String helpers of the JavaScript library\<close>

definition startsWith :: "string \<Rightarrow> string \<Rightarrow> bool" where
  "startsWith s p = (take (length p) s = p)"

definition endsWith :: "string \<Rightarrow> string \<Rightarrow> bool" where
  "endsWith s p = (length p \<le> length s \<and> drop (length s - length p) s = p)"

text \<open>\<^verbatim>\<open>s.split(c)[0]\<close> for a one-character separator: the part before its first occurrence.\<close>

definition split0 :: "char \<Rightarrow> string \<Rightarrow> string" where
  "split0 c s = takeWhile (\<lambda>x. x \<noteq> c) s"

definition isWhiteSpace :: "char \<Rightarrow> bool" where
  "isWhiteSpace c = (of_char c \<in> {9, 10, 11, 12, 13, 32, 160 :: nat})"

definition isDigit :: "char \<Rightarrow> bool" where
  "isDigit c = (48 \<le> (of_char c :: nat) \<and> (of_char c :: nat) \<le> 57)"

definition digitValue :: "char \<Rightarrow> nat" where
  "digitValue c = of_char c - 48"

section \<open>Numbers: reading and printing\<close>

text \<open>
  A JavaScript number is a double. \<open>round_double n\<close> is the value of the double nearest to
  the natural number \<open>n\<close>, ties going to the even significand of 53 bits: \<open>n\<close> itself when
  it has at most 53 bits. A result of \<open>2^1024\<close> or more stands for a value beyond the largest
  double, which is an infinity.
\<close>

fun bits :: "nat \<Rightarrow> nat" where
  "bits n = (if n = 0 then 0 else Suc (bits (n div 2)))"

declare bits.simps [simp del]

definition round_double :: "nat \<Rightarrow> nat" where
  "round_double n =
     (if bits n \<le> 53 then n
      else (let e = bits n - 53;
                q = n div 2 ^ e;
                r = n mod 2 ^ e;
                half = 2 ^ (e - 1)
            in (if half < r \<or> (r = half \<and> odd q) then q + 1 else q) * 2 ^ e))"

definition to_number :: "bool \<Rightarrow> nat \<Rightarrow> number" where
  "to_number neg m =
     (let d = round_double m
      in if 2 ^ 1024 \<le> d then (if neg then NegInfinity else PosInfinity)
         else Num (if neg then - int d else int d))"

text \<open>
  \<^verbatim>\<open>parseInt(s, 10)\<close>: leading white space is skipped, one sign is read, then the longest
  run of decimal digits; \<open>None\<close> is \<^verbatim>\<open>NaN\<close>. The result is the number nearest to the integer
  that the digits denote, so it is that integer up to \<open>2^53\<close> and a rounded value beyond
  (a Docker port is below \<open>2^16\<close>).
\<close>

definition parseInt :: "string \<Rightarrow> number option" where
  "parseInt s =
     (let t = dropWhile isWhiteSpace s;
          neg = (t \<noteq> [] \<and> hd t = CHR ''-'');
          u = (if t \<noteq> [] \<and> (hd t = CHR ''-'' \<or> hd t = CHR ''+'') then tl t else t);
          z = takeWhile isDigit u
      in if z = [] then None
         else Some (to_number neg (foldl (\<lambda>a c. 10 * a + digitValue c) 0 z)))"

text \<open>The decimal digits of a natural number.\<close>

definition digitChar :: "nat \<Rightarrow> char" where
  "digitChar d = ''0123456789'' ! d"

fun string_of_nat :: "nat \<Rightarrow> string" where
  "string_of_nat n =
     (if n < 10 then [digitChar n]
      else string_of_nat (n div 10) @ [digitChar (n mod 10)])"

declare string_of_nat.simps [simp del]

fun ndigits :: "nat \<Rightarrow> nat" where
  "ndigits n = (if n = 0 then 0 else Suc (ndigits (n div 10)))"

declare ndigits.simps [simp del]

text \<open>
  The text of a number in a template literal (\<^verbatim>\<open>Number::toString\<close>). The digits printed for
  a double \<open>x\<close> are those of the decimal number with the fewest significant digits among
  the numbers that round to \<open>x\<close>, the nearest to \<open>x\<close> if there are several, the even one on
  a tie. For \<open>x\<close> of \<open>N\<close> digits, \<open>candidate x N k\<close> looks among the multiples of
  \<open>10^(N-k)\<close>, where only the two around \<open>x\<close> can qualify, and \<open>shortest x\<close> takes the
  first \<open>k\<close> that has one, \<open>x\<close> itself being the last resort.
\<close>

definition candidate :: "nat \<Rightarrow> nat \<Rightarrow> nat \<Rightarrow> nat option" where
  "candidate x N k =
     (let p = 10 ^ (N - k);
          lo = x div p;
          a = lo * p;
          b = (lo + 1) * p;
          fits_a = (round_double a = x);
          fits_b = (round_double b = x)
      in if fits_a \<and> fits_b then
           (if x - a < b - x then Some a
            else if b - x < x - a then Some b
            else if even lo then Some a else Some b)
         else if fits_a then Some a
         else if fits_b then Some b
         else None)"

definition shortest :: "nat \<Rightarrow> nat" where
  "shortest x =
     (case List.map_filter (candidate x (ndigits x)) [1 ..< ndigits x] of
        [] \<Rightarrow> x
      | v # _ \<Rightarrow> v)"

text \<open>
  Up to \<open>2^53\<close> every integer is a double and all its digits are printed. Beyond, the digits
  of \<open>shortest x\<close> are printed in full when they are at most 21, and in exponent form
  otherwise: the first significant digit, a point and the other significant digits if
  there are any, then \<^verbatim>\<open>e+\<close> and the exponent.
\<close>

definition nat_text :: "nat \<Rightarrow> string" where
  "nat_text x =
     (if x \<le> 2 ^ 53 then string_of_nat x
      else (let v = shortest x;
                n = ndigits v
            in if n \<le> 21 then string_of_nat v
               else (let s = rev (dropWhile (\<lambda>c. c = CHR ''0'') (rev (string_of_nat v)))
                     in hd s # (if tl s = [] then [] else CHR ''.'' # tl s)
                        @ ''e+'' @ string_of_nat (n - 1))))"

definition number_text :: "number \<Rightarrow> string" where
  "number_text x =
     (case x of
        Num i \<Rightarrow> if i < 0 then CHR ''-'' # nat_text (nat (- i)) else nat_text (nat i)
      | PosInfinity \<Rightarrow> ''Infinity''
      | NegInfinity \<Rightarrow> ''-Infinity'')"

section \<open>Discovery: the handler of the event stream (lines 27 to 100)\<close>

text \<open>Line 48: one leading \<^verbatim>\<open>/\<close> is dropped from the reported name.\<close>

definition derive_containerName :: "string \<Rightarrow> string" where
  "derive_containerName name = (if startsWith name ''/'' then drop 1 name else name)"

text \<open>
  Lines 50 to 58: the address of the first network, \<open>None\<close> (the initial \<^verbatim>\<open>null\<close>) when
  \<^verbatim>\<open>Networks\<close> is falsy or empty, or when its first value is falsy or has a falsy
  \<^verbatim>\<open>IPAddress\<close>. No later network is read.
\<close>

definition first_ipAddress :: "endpoint option js_object option \<Rightarrow> string option" where
  "first_ipAddress networks =
     (case networks of
        None \<Rightarrow> None
      | Some nets \<Rightarrow>
          (case map snd nets of
             [] \<Rightarrow> None
           | firstNetwork # _ \<Rightarrow>
               (case firstNetwork of
                  None \<Rightarrow> None
                | Some ep \<Rightarrow>
                    (case IPAddress ep of
                       None \<Rightarrow> None
                     | Some ip \<Rightarrow> if ip = [] then None else Some ip))))"

text \<open>
  Lines 66 to 78: \<open>80\<close> when the key \<^verbatim>\<open>80/tcp\<close> is present, otherwise \<^verbatim>\<open>parseInt\<close> of the part
  before the first \<^verbatim>\<open>/\<close> of the first key that ends in \<^verbatim>\<open>/tcp\<close>. \<open>None\<close> is \<^verbatim>\<open>null\<close> (no such
  key) or \<^verbatim>\<open>NaN\<close>; both are falsy at line 80, as is the number 0.
\<close>

definition select_defaultPort :: "unit js_object \<Rightarrow> number option" where
  "select_defaultPort exposedPorts =
     (if map_of exposedPorts ''80/tcp'' \<noteq> None then Some (Num 80)
      else (case find (\<lambda>port. endsWith port ''/tcp'') (map fst exposedPorts) of
              None \<Rightarrow> None
            | Some portKey \<Rightarrow> parseInt (split0 CHR ''/'' portKey)))"

text \<open>The message of line 86, with its terminal colour codes.\<close>

definition esc :: string where
  "esc = [CHR 0x1B]"

definition registering_message :: "string \<Rightarrow> string \<Rightarrow> number \<Rightarrow> string \<Rightarrow> string" where
  "registering_message name ip port url =
     esc @ ''[32mRegistering container '' @ esc @ ''[33m'' @ name @ ''.localhost''
     @ esc @ ''[0m '' @ esc @ ''[32mwith IP '' @ esc @ ''[33m'' @ ip
     @ esc @ ''[0m '' @ esc @ ''[32mand default port '' @ esc @ ''[33m''
     @ number_text port @ esc @ ''[0m ---> '' @ esc @ ''[36m'' @ url @ esc @ ''[0m''"

text \<open>
  The handler touches the registry at one place, the \<^verbatim>\<open>db.set\<close> of line 89, and reads it
  only for the log line that follows. The two functions below therefore compute the console
  output and the handler's write: the record passed to \<^verbatim>\<open>db.set\<close>, or \<open>None\<close> when the handler
  returns before line 89. \<open>Inl\<close> is an exception that leaves the \<^verbatim>\<open>try\<close> block, with the
  console lines written before it. Objects printed after a message are left out of the
  console lines.

  \<open>inspect_container\<close> is the body of the inner \<^verbatim>\<open>try\<close>, lines 44 to 88. Reading a property
  of \<^verbatim>\<open>undefined\<close> or \<^verbatim>\<open>null\<close> (lines 48, 49 and 66) throws a \<^verbatim>\<open>TypeError\<close>; line 46 has
  printed the name before, \<^verbatim>\<open>undefined\<close> for a missing one.
\<close>

definition inspect_container :: "docker \<Rightarrow> string \<Rightarrow> service option completion" where
  "inspect_container docker containerId =
     (case docker containerId of
        Inl inspectErr \<Rightarrow> Inl ([], inspectErr)
      | Inr containerInfo \<Rightarrow>
          (case Name containerInfo of
             None \<Rightarrow> Inl ([Log ''Container undefined started''], TypeError)
           | Some name \<Rightarrow>
               (let started = Log (''Container '' @ name @ '' started'');
                    containerName' = derive_containerName name
                in case NetworkSettings containerInfo of
                     None \<Rightarrow> Inl ([started], TypeError)
                   | Some ns \<Rightarrow>
                       (case first_ipAddress (Networks ns) of
                          None \<Rightarrow>
                            Inr ([started,
                                  Error (''Could not determine IP address for container ''
                                         @ containerName')], None)
                        | Some ipAddress' \<Rightarrow>
                            (case Config containerInfo of
                               None \<Rightarrow> Inl ([started], TypeError)
                             | Some cfg \<Rightarrow>
                                 (let exposedPorts =
                                        (case ExposedPorts cfg of None \<Rightarrow> [] | Some ps \<Rightarrow> ps);
                                      noPort =
                                        Inr ([started,
                                              Error (''No default TCP port found for container ''
                                                     @ containerName')], None)
                                  in case select_defaultPort exposedPorts of
                                       None \<Rightarrow> noPort
                                     | Some defaultPort' \<Rightarrow>
                                         if defaultPort' = Num 0 then noPort
                                         else
                                           (let target' = ''http://'' @ ipAddress' @ '':''
                                                         @ number_text defaultPort'
                                            in Inr ([started,
                                                     Log (registering_message containerName'
                                                            ipAddress' defaultPort' target')],
                                                    Some \<lparr>containerName = containerName',
                                                          ipAddress = ipAddress',
                                                          defaultPort = defaultPort',
                                                          target = target'\<rparr>))))))))"

text \<open>
  The body of the outer \<^verbatim>\<open>try\<close>, lines 31 to 96, with the inner \<^verbatim>\<open>catch\<close> of line 93.
  \<^verbatim>\<open>event.Actor.ID\<close> throws when \<^verbatim>\<open>Actor\<close> is missing; a missing or empty \<^verbatim>\<open>ID\<close> is falsy.
\<close>

definition handle_event :: "docker \<Rightarrow> chunk \<Rightarrow> service option completion" where
  "handle_event docker chunk =
     (case chunk of
        Falsy \<Rightarrow> Inr ([], None)
      | Unparsable \<Rightarrow> Inl ([], SyntaxError)
      | JsonNull \<Rightarrow> Inl ([], TypeError)
      | JsonEvent event \<Rightarrow>
          if Type event = Some ''container'' \<and> Action event = Some ''start'' then
            (case Actor event of
               None \<Rightarrow> Inl ([], TypeError)
             | Some a \<Rightarrow>
                 (let noId = Inr ([Warn ''Container ID is undefined. Event data:''], None)
                  in case ID a of
                       None \<Rightarrow> noId
                     | Some containerId \<Rightarrow>
                         if containerId = [] then noId
                         else
                           (case inspect_container docker containerId of
                              Inl (out, inspectErr) \<Rightarrow>
                                Inr (out @ [Error (''Error inspecting container '' @ containerId
                                                   @ '':'')], None)
                            | Inr r \<Rightarrow> Inr r)))
          else Inr ([], None))"

text \<open>
  The whole handler, lines 27 to 100: the guard of line 28, the outer \<^verbatim>\<open>catch\<close> of line 97,
  and the write. An \<open>Inl\<close> result would be an exception that escapes the handler. The handler
  awaits once, at the inspection, and runs without interruption from there to its end, so
  a run of the handler is one step on the registry, taken when its inspection completes.
\<close>

definition on_data :: "docker \<Rightarrow> chunk \<Rightarrow> db \<Rightarrow> db completion" where
  "on_data docker chunk db =
     (case chunk of
        Falsy \<Rightarrow> Inr ([], db)
      | _ \<Rightarrow>
          (case handle_event docker chunk of
             Inl (out, parseError) \<Rightarrow> Inr (out @ [Error ''Error parsing event data:''], db)
           | Inr (out, None) \<Rightarrow> Inr (out, db)
           | Inr (out, Some entry) \<Rightarrow>
               Inr (out @ [Log ''Current container mappings:''],
                    db(containerName entry \<mapsto> entry))))"

section \<open>The router: plain HTTP (lines 106 to 136) and WebSocket upgrades (lines 142 to 174)\<close>

text \<open>
  Of a request the handlers read \<^verbatim>\<open>req.hostname\<close> (computed by Express, \<^verbatim>\<open>undefined\<close> when the
  request has no host) and \<^verbatim>\<open>req.headers.host\<close>. The proxy library is the environment.
  \<^verbatim>\<open>proxy.web\<close> relays the backend's response (\<open>Response\<close>), or calls the error callback
  with a message: before any header was sent to the client (\<open>Failure\<close>), or after the
  status and headers of the backend were relayed (\<open>Aborted\<close>, with that status).
  \<^verbatim>\<open>proxy.ws\<close> either takes over the socket or calls the error callback.
\<close>

record request =
  hostname :: "string option"
  headers_host :: "string option"

datatype proxy_result = Response nat string | Failure string | Aborted nat string

type_synonym proxy_web = "request \<Rightarrow> string \<Rightarrow> proxy_result"

type_synonym proxy_ws = "request \<Rightarrow> string \<Rightarrow> string option"

text \<open>
  What the client of a plain request gets. \<open>Reply\<close> is a response that the listener
  generates, with its status and body: the object given to \<^verbatim>\<open>res.json\<close>, the text given to
  \<^verbatim>\<open>res.send\<close>, or the HTML page of Express's default error handler, whose text depends on
  the environment. \<open>Relayed\<close> is the response of the backend. \<open>Interrupted\<close> is a response
  of the backend that was cut after its status and headers.
\<close>

datatype body = Json "(string \<times> string) list" | Text string | ErrorPage

datatype reply = Reply nat body | Relayed nat string | Interrupted nat

datatype socket = End string | Tunnel


text \<open>
  Lines 106 to 136. \<^verbatim>\<open>hostname.split\<close> throws when \<^verbatim>\<open>req.hostname\<close> is \<^verbatim>\<open>undefined\<close>; the
  exception goes to Express. The callback of lines 132 to 135 has no test of
  \<^verbatim>\<open>res.headersSent\<close>: when the status and headers of the backend are already sent,
  \<^verbatim>\<open>res.status(502)\<close> changes nothing for the client, and \<^verbatim>\<open>res.send\<close> throws inside the
  callback, where nothing of the source catches it; the client keeps the relayed status and
  gets no 502.
\<close>

definition reverseProxyApp :: "proxy_web \<Rightarrow> db \<Rightarrow> request \<Rightarrow> exn + (console list \<times> reply)" where
  "reverseProxyApp proxy_web db req =
     (case hostname req of
        None \<Rightarrow> Inl TypeError
      | Some h \<Rightarrow>
          (let subdomain = split0 CHR ''.'' h;
               received = Log (''Received request for hostname: '' @ h @ '', subdomain: ''
                               @ subdomain)
           in case db subdomain of
                None \<Rightarrow>
                  Inr ([received],
                       Reply 404 (Json [(''status'', ''error''),
                                        (''message'', ''Container not found'')]))
              | Some entry \<Rightarrow>
                  if target entry = [] then
                    Inr ([received, Error (''Invalid target for container '' @ subdomain)],
                         Reply 500 (Json [(''status'', ''error''),
                                          (''message'', ''Invalid target configuration'')]))
                  else
                    (let forwarding = Log (''Forwarding request to '' @ target entry)
                     in case proxy_web req (target entry) of
                          Response code content \<Rightarrow> Inr ([received, forwarding], Relayed code content)
                        | Failure message \<Rightarrow>
                            Inr ([received, forwarding,
                                  Error (''Proxy web error: '' @ message)],
                                 Reply 502 (Text ''Bad gateway.''))
                        | Aborted code message \<Rightarrow>
                            Inr ([received, forwarding,
                                  Error (''Proxy web error: '' @ message)],
                                 Interrupted code))))"


definition crlf :: string where
  "crlf = [CHR 0x0D, CHR 0x0A]"

text \<open>Lines 142 to 174. A missing or empty \<^verbatim>\<open>host\<close> header is falsy.\<close>

definition on_upgrade :: "proxy_ws \<Rightarrow> db \<Rightarrow> request \<Rightarrow> console list \<times> socket" where
  "on_upgrade proxy_ws db req =
     (let noHost = ([Warn ''Upgrade request without hostname''],
                    End (''HTTP/1.1 400 Bad Request'' @ crlf @ crlf))
      in case headers_host req of
           None \<Rightarrow> noHost
         | Some h \<Rightarrow>
             if h = [] then noHost
             else
               (let subdomain = split0 CHR ''.'' h;
                    request = Log (''WebSocket upgrade request for subdomain: '' @ subdomain)
                in case db subdomain of
                     None \<Rightarrow>
                       ([request, Warn (''Container not found for subdomain: '' @ subdomain)],
                        End (''HTTP/1.1 404 Not Found'' @ crlf @ crlf))
                   | Some entry \<Rightarrow>
                       if target entry = [] then
                         ([request, Error (''Invalid target for container '' @ subdomain)],
                          End (''HTTP/1.1 502 Bad Gateway'' @ crlf @ crlf))
                       else
                         (let upgrading = Log (''Upgrading WebSocket connection to ''
                                               @ target entry)
                          in case proxy_ws req (target entry) of
                               None \<Rightarrow> ([request, upgrading], Tunnel)
                             | Some message \<Rightarrow>
                                 ([request, upgrading,
                                   Error (''Proxy WebSocket error: '' @ message)],
                                  End (''HTTP/1.1 502 Bad Gateway'' @ crlf @ crlf)))))"

section \<open>The core as a transition system on the registry\<close>

text \<open>
  An input of the core is a chunk of the event stream, with the runtime that answers its
  inspection, a plain request or an upgrade request, each with the backend behind the proxy.
  The two routers call only \<^verbatim>\<open>db.has\<close> and \<^verbatim>\<open>db.get\<close>.
\<close>

datatype input = Data docker chunk | Request proxy_web request | Upgrade proxy_ws request

fun step :: "db \<Rightarrow> input \<Rightarrow> db" where
  "step db (Data docker chunk) =
     (case on_data docker chunk db of Inl _ \<Rightarrow> db | Inr (_, db') \<Rightarrow> db')"
| "step db (Request proxy_web req) = db"
| "step db (Upgrade proxy_ws req) = db"

definition run :: "db \<Rightarrow> input list \<Rightarrow> db" where
  "run db inputs = foldl step db inputs"

section \<open>Notions of the specification used to state the claims\<close>

text \<open>
  An attached network carries an address: its value in \<^verbatim>\<open>Networks\<close> is an endpoint whose
  \<^verbatim>\<open>IPAddress\<close> is a non-empty string.
\<close>

definition carries_address :: "endpoint option \<Rightarrow> bool" where
  "carries_address network =
     (case network of
        None \<Rightarrow> False
      | Some ep \<Rightarrow> (case IPAddress ep of None \<Rightarrow> False | Some ip \<Rightarrow> ip \<noteq> []))"



section \<open>Facts about the handler, shared by the proofs below\<close>

lemma bits_le_iff: "bits n \<le> k \<longleftrightarrow> n < 2 ^ k"
proof (induction n arbitrary: k rule: bits.induct)
  case (1 n)
  show ?case
  proof (cases "n = 0")
    case True
    then show ?thesis by (simp add: bits.simps [of 0])
  next
    case False
    show ?thesis
    proof (cases k)
      case 0
      with False show ?thesis by (simp add: bits.simps [of n])
    next
      case (Suc j)
      have "n div 2 < 2 ^ j \<longleftrightarrow> n < 2 * 2 ^ j" by linarith
      with False Suc "1" [OF False, of j] show ?thesis
        by (simp add: bits.simps [of n])
    qed
  qed
qed




lemma number_text_nonempty: "''http://'' @ ip @ '':'' @ number_text port \<noteq> []"
  by simp

lemma inspect_container_SomeD:
  assumes "inspect_container docker containerId = Inr (out, Some entry)"
  shows "\<exists>info name ns ip cfg port.
           docker containerId = Inr info \<and> Name info = Some name \<and>
           NetworkSettings info = Some ns \<and> first_ipAddress (Networks ns) = Some ip \<and>
           Config info = Some cfg \<and>
           select_defaultPort (case ExposedPorts cfg of None \<Rightarrow> [] | Some ps \<Rightarrow> ps) = Some port \<and>
           port \<noteq> Num 0 \<and>
           entry = \<lparr>containerName = derive_containerName name, ipAddress = ip,
                    defaultPort = port,
                    target = ''http://'' @ ip @ '':'' @ number_text port\<rparr>"
  using assms unfolding inspect_container_def Let_def
  by (auto split: sum.splits option.splits if_splits)


lemma handle_event_SomeD:
  assumes "handle_event docker chunk = Inr (out, Some entry)"
  shows "\<exists>event a containerId.
           chunk = JsonEvent event \<and> Type event = Some ''container'' \<and>
           Action event = Some ''start'' \<and> Actor event = Some a \<and>
           ID a = Some containerId \<and> containerId \<noteq> [] \<and>
           inspect_container docker containerId = Inr (out, Some entry)"
  using assms unfolding handle_event_def Let_def
  by (auto split: chunk.splits sum.splits option.splits if_splits)

lemma handle_event_start:
  assumes "Type event = Some ''container''" "Action event = Some ''start''"
    "Actor event = Some a" "ID a = Some containerId" "containerId \<noteq> []"
  shows "handle_event docker (JsonEvent event) =
           (case inspect_container docker containerId of
              Inl (out, inspectErr) \<Rightarrow>
                Inr (out @ [Error (''Error inspecting container '' @ containerId @ '':'')],
                     None)
            | Inr r \<Rightarrow> Inr r)"
  using assms unfolding handle_event_def Let_def by simp

lemma on_data_total: "\<exists>out db'. on_data docker chunk db = Inr (out, db')"
  unfolding on_data_def by (auto split: chunk.splits sum.splits option.splits prod.splits)

lemma on_data_cases:
  assumes "on_data docker chunk db = r"
  shows "(\<exists>out. r = Inr (out, db)) \<or>
         (\<exists>out entry. handle_event docker chunk = Inr (out, Some entry) \<and>
            r = Inr (out @ [Log ''Current container mappings:''],
                     db(containerName entry \<mapsto> entry)))"
  using assms unfolding on_data_def
  by (auto split: chunk.splits sum.splits option.splits prod.splits)

lemma on_data_registered:
  assumes "handle_event docker chunk = Inr (out, Some entry)"
  shows "on_data docker chunk db =
           Inr (out @ [Log ''Current container mappings:''],
                db(containerName entry \<mapsto> entry))"
  using assms unfolding on_data_def
  by (auto simp: handle_event_def split: chunk.splits)

lemma on_data_discarded:
  assumes "\<And>out entry. handle_event docker chunk \<noteq> Inr (out, Some entry)"
  shows "\<exists>out. on_data docker chunk db = Inr (out, db)"
  using assms unfolding on_data_def
  by (auto split: chunk.splits sum.splits option.splits prod.splits)

lemma handle_event_Some_full:
  assumes "handle_event docker chunk = Inr (out, Some entry)"
  shows "\<exists>event a containerId info name ns ip cfg port.
           chunk = JsonEvent event \<and> Type event = Some ''container'' \<and>
           Action event = Some ''start'' \<and> Actor event = Some a \<and>
           ID a = Some containerId \<and> containerId \<noteq> [] \<and>
           docker containerId = Inr info \<and> Name info = Some name \<and>
           NetworkSettings info = Some ns \<and> first_ipAddress (Networks ns) = Some ip \<and>
           Config info = Some cfg \<and>
           select_defaultPort (case ExposedPorts cfg of None \<Rightarrow> [] | Some ps \<Rightarrow> ps) = Some port \<and>
           port \<noteq> Num 0 \<and>
           entry = \<lparr>containerName = derive_containerName name, ipAddress = ip,
                    defaultPort = port,
                    target = ''http://'' @ ip @ '':'' @ number_text port\<rparr>"
proof -
  from handle_event_SomeD [OF assms] obtain event a containerId where
    ev: "chunk = JsonEvent event" "Type event = Some ''container''"
      "Action event = Some ''start''" "Actor event = Some a"
      "ID a = Some containerId" "containerId \<noteq> []"
    and ins: "inspect_container docker containerId = Inr (out, Some entry)"
    by blast
  from inspect_container_SomeD [of docker containerId, OF ins] ev show ?thesis
    by blast
qed

lemma step_cases:
  "step db i = db \<or>
   (\<exists>docker chunk out entry. i = Data docker chunk \<and>
      handle_event docker chunk = Inr (out, Some entry) \<and>
      step db i = db(containerName entry \<mapsto> entry))"
proof (cases i)
  case (Data docker chunk)
  from on_data_cases [of docker chunk db, OF refl] show ?thesis
    unfolding Data by auto
qed simp_all

section \<open>Discovery: address and port selection\<close>















lemma first_ipAddress_None_iff:
  "first_ipAddress networks = None \<longleftrightarrow>
     \<not> (\<exists>k v rest. networks = Some ((k, v) # rest) \<and> carries_address v)"
  unfolding first_ipAddress_def carries_address_def
  by (auto split: option.splits list.splits)

lemma first_ipAddress_SomeD:
  "first_ipAddress networks = Some ip \<Longrightarrow>
     \<exists>k ep rest. networks = Some ((k, Some ep) # rest) \<and> IPAddress ep = Some ip \<and> ip \<noteq> []"
  unfolding first_ipAddress_def
  by (auto split: option.splits list.splits if_splits)

text \<open>
  Claim C2, as stated, fails: the handler reads the first network only. With a first network
  whose address is empty and a second network at \<^verbatim>\<open>10.0.0.7\<close>, a network carries an address
  and yet the handler reports that it could not determine the address and registers nothing.
\<close>

theorem C2_later_network_ignored_counterexample:
  "list_ex carries_address
     (map snd [(''none'', Some \<lparr>IPAddress = Some []\<rparr>),
               (''backend'', Some \<lparr>IPAddress = Some ''10.0.0.7''\<rparr>)])
   \<and> on_data
      (\<lambda>_. Inr \<lparr>Name = Some ''/web1'',
                NetworkSettings = Some \<lparr>Networks =
                  Some [(''none'', Some \<lparr>IPAddress = Some []\<rparr>),
                        (''backend'', Some \<lparr>IPAddress = Some ''10.0.0.7''\<rparr>)]\<rparr>,
                Config = Some \<lparr>ExposedPorts = Some [(''80/tcp'', ())]\<rparr>\<rparr>)
      (JsonEvent \<lparr>Type = Some ''container'', Action = Some ''start'',
                  Actor = Some \<lparr>ID = Some ''c1''\<rparr>\<rparr>)
      Map.empty
    = Inr ([Log ''Container /web1 started'',
            Error ''Could not determine IP address for container web1''], Map.empty)"
  by (simp add: carries_address_def on_data_def handle_event_def inspect_container_def
        first_ipAddress_def derive_containerName_def startsWith_def)

text \<open>
  Claim C2, amended. For a container-start event whose inspection succeeds: the handler
  fails with the no-address error, leaving the registry as it was, exactly when the network
  mapping is absent or empty or its first network carries no address; the address of
  a registered record is the address of the first network.
\<close>

theorem C2_first_network_address:
  assumes start: "Type event = Some ''container''" "Action event = Some ''start''"
      "Actor event = Some a" "ID a = Some containerId" "containerId \<noteq> []"
    and inspected: "docker containerId = Inr info" "Name info = Some name"
      "NetworkSettings info = Some ns"
  shows "(on_data docker (JsonEvent event) db =
            Inr ([Log (''Container '' @ name @ '' started''),
                  Error (''Could not determine IP address for container ''
                         @ derive_containerName name)], db)
          \<longleftrightarrow> \<not> (\<exists>k v rest. Networks ns = Some ((k, v) # rest) \<and> carries_address v))
       \<and> (\<forall>out entry. handle_event docker (JsonEvent event) = Inr (out, Some entry) \<longrightarrow>
            (\<exists>k ep rest. Networks ns = Some ((k, Some ep) # rest) \<and>
                          IPAddress ep = Some (ipAddress entry)))"
proof -
  let ?noip = "[Log (''Container '' @ name @ '' started''),
                  Error (''Could not determine IP address for container ''
                         @ derive_containerName name)]"
  have fails: "on_data docker (JsonEvent event) db = Inr (?noip, db)"
    if "first_ipAddress (Networks ns) = None"
    using that inspected
    by (simp add: on_data_def handle_event_start [OF start] inspect_container_def)
  have other: "on_data docker (JsonEvent event) db \<noteq> Inr (?noip, db)"
    if ip: "first_ipAddress (Networks ns) = Some ip" for ip
    using ip inspected
    by (auto simp: on_data_def handle_event_start [OF start] inspect_container_def Let_def
          split: option.splits sum.splits if_splits)
  have A: "on_data docker (JsonEvent event) db = Inr (?noip, db)
          \<longleftrightarrow> \<not> (\<exists>k v rest. Networks ns = Some ((k, v) # rest) \<and> carries_address v)"
    using fails other first_ipAddress_None_iff [of "Networks ns"]
    by (cases "first_ipAddress (Networks ns)") auto
  have B: "\<forall>out entry. handle_event docker (JsonEvent event) = Inr (out, Some entry) \<longrightarrow>
            (\<exists>k ep rest. Networks ns = Some ((k, Some ep) # rest) \<and>
                          IPAddress ep = Some (ipAddress entry))"
  proof (intro allI impI)
    fix out entry
    assume "handle_event docker (JsonEvent event) = Inr (out, Some entry)"
    then have "inspect_container docker containerId = Inr (out, Some entry)"
      by (simp add: handle_event_start [OF start] split: sum.splits prod.splits)
    from inspect_container_SomeD [of docker containerId, OF this] inspected
    have "first_ipAddress (Networks ns) = Some (ipAddress entry)"
      by auto
    from first_ipAddress_SomeD [OF this]
    show "\<exists>k ep rest. Networks ns = Some ((k, Some ep) # rest) \<and>
                          IPAddress ep = Some (ipAddress entry)"
      by blast
  qed
  from A B show ?thesis by blast
qed

theorem C2_first_network_address_witness:
  "on_data
      (\<lambda>_. Inr \<lparr>Name = Some ''/api'',
                NetworkSettings = Some \<lparr>Networks =
                  Some [(''host'', Some \<lparr>IPAddress = Some []\<rparr>),
                        (''backend'', Some \<lparr>IPAddress = Some ''10.0.0.9''\<rparr>)]\<rparr>,
                Config = Some \<lparr>ExposedPorts = Some [(''3000/tcp'', ())]\<rparr>\<rparr>)
      (JsonEvent \<lparr>Type = Some ''container'', Action = Some ''start'',
                  Actor = Some \<lparr>ID = Some ''c2''\<rparr>\<rparr>)
      Map.empty
    = Inr ([Log ''Container /api started'',
            Error ''Could not determine IP address for container api''], Map.empty)"
  using C2_first_network_address
    [of "\<lparr>Type = Some ''container'', Action = Some ''start'',
                  Actor = Some \<lparr>ID = Some ''c2''\<rparr>\<rparr>"
        "\<lparr>ID = Some ''c2''\<rparr>" "''c2''"
        "\<lambda>_. Inr \<lparr>Name = Some ''/api'',
                NetworkSettings = Some \<lparr>Networks =
                  Some [(''host'', Some \<lparr>IPAddress = Some []\<rparr>),
                        (''backend'', Some \<lparr>IPAddress = Some ''10.0.0.9''\<rparr>)]\<rparr>,
                Config = Some \<lparr>ExposedPorts = Some [(''3000/tcp'', ())]\<rparr>\<rparr>"
        "\<lparr>Name = Some ''/api'',
                NetworkSettings = Some \<lparr>Networks =
                  Some [(''host'', Some \<lparr>IPAddress = Some []\<rparr>),
                        (''backend'', Some \<lparr>IPAddress = Some ''10.0.0.9''\<rparr>)]\<rparr>,
                Config = Some \<lparr>ExposedPorts = Some [(''3000/tcp'', ())]\<rparr>\<rparr>"
        "''/api''"
        "\<lparr>Networks = Some [(''host'', Some \<lparr>IPAddress = Some []\<rparr>),
                        (''backend'', Some \<lparr>IPAddress = Some ''10.0.0.9''\<rparr>)]\<rparr>"
        Map.empty]
  by (simp add: carries_address_def derive_containerName_def startsWith_def)

section \<open>The router: replies of the HTTP handler\<close>

lemma reverseProxyApp_forward:
  assumes "hostname req = Some h" "db (split0 CHR ''.'' h) = Some entry" "target entry \<noteq> []"
  shows "reverseProxyApp proxy_web db req =
           (case proxy_web req (target entry) of
              Response code content \<Rightarrow>
                Inr ([Log (''Received request for hostname: '' @ h @ '', subdomain: ''
                           @ split0 CHR ''.'' h),
                      Log (''Forwarding request to '' @ target entry)],
                     Relayed code content)
            | Failure message \<Rightarrow>
                Inr ([Log (''Received request for hostname: '' @ h @ '', subdomain: ''
                           @ split0 CHR ''.'' h),
                      Log (''Forwarding request to '' @ target entry),
                      Error (''Proxy web error: '' @ message)],
                     Reply 502 (Text ''Bad gateway.''))
            | Aborted code message \<Rightarrow>
                Inr ([Log (''Received request for hostname: '' @ h @ '', subdomain: ''
                           @ split0 CHR ''.'' h),
                      Log (''Forwarding request to '' @ target entry),
                      Error (''Proxy web error: '' @ message)],
                     Interrupted code))"
  using assms unfolding reverseProxyApp_def Let_def by simp







text \<open>
  Claim C7. A request whose host yields a service name that is not in the registry is answered
  with status 404 and the body \<^verbatim>\<open>{"status":"error","message":"Container not found"}\<close>: the
  handler returns this reply, throws nothing, and the reply is the same whatever the proxy
  would do, since the proxy is not called.
\<close>

theorem C7_unknown_service_404:
  assumes "hostname req = Some h" "db (split0 CHR ''.'' h) = None"
  shows "reverseProxyApp proxy_web db req =
           Inr ([Log (''Received request for hostname: '' @ h @ '', subdomain: ''
                      @ split0 CHR ''.'' h)],
                Reply 404 (Json [(''status'', ''error''),
                                 (''message'', ''Container not found'')]))"
  using assms unfolding reverseProxyApp_def Let_def by simp

theorem C7_unknown_service_404_witness:
  "reverseProxyApp (\<lambda>_ _. Response 200 ''ok'')
      [''web1'' \<mapsto> \<lparr>containerName = ''web1'', ipAddress = ''10.0.0.5'', defaultPort = Num 80,
                      target = ''http://10.0.0.5:80''\<rparr>]
      \<lparr>hostname = Some ''unknown.localhost'', headers_host = Some ''unknown.localhost''\<rparr>
    = Inr ([Log ''Received request for hostname: unknown.localhost, subdomain: unknown''],
           Reply 404 (Json [(''status'', ''error''), (''message'', ''Container not found'')]))"
  using C7_unknown_service_404
    [of "\<lparr>hostname = Some ''unknown.localhost'', headers_host = Some ''unknown.localhost''\<rparr>"
        "''unknown.localhost''"
        "[''web1'' \<mapsto> \<lparr>containerName = ''web1'', ipAddress = ''10.0.0.5'', defaultPort = Num 80,
                      target = ''http://10.0.0.5:80''\<rparr>]"
        "\<lambda>_ _. Response 200 ''ok''"]
  by (simp add: split0_def)

section \<open>The router: WebSocket upgrades\<close>

text \<open>
  Claim C8. An upgrade request that fails at any step has an HTTP status line written to its
  socket, which is then closed: 400 when the host header is missing or empty, 404 when the
  derived service name is not registered, 502 when the stored target is empty or the proxy
  reports an error for the backend. The only other outcome is that the socket is handed to
  the proxy, for a registered name with a non-empty target and no error reported.
\<close>

theorem C8_upgrade_failure_lines:
  "(headers_host req = None \<or> headers_host req = Some [] \<longrightarrow>
      snd (on_upgrade proxy_ws db req) = End (''HTTP/1.1 400 Bad Request'' @ crlf @ crlf))
   \<and> (\<forall>h. headers_host req = Some h \<and> h \<noteq> [] \<and> db (split0 CHR ''.'' h) = None \<longrightarrow>
        snd (on_upgrade proxy_ws db req) = End (''HTTP/1.1 404 Not Found'' @ crlf @ crlf))
   \<and> (\<forall>h entry. headers_host req = Some h \<and> h \<noteq> [] \<and>
        db (split0 CHR ''.'' h) = Some entry \<and>
        (target entry = [] \<or> proxy_ws req (target entry) \<noteq> None) \<longrightarrow>
        snd (on_upgrade proxy_ws db req) = End (''HTTP/1.1 502 Bad Gateway'' @ crlf @ crlf))
   \<and> (snd (on_upgrade proxy_ws db req) = Tunnel \<longrightarrow>
        (\<exists>h entry. headers_host req = Some h \<and> h \<noteq> [] \<and>
           db (split0 CHR ''.'' h) = Some entry \<and> target entry \<noteq> [] \<and>
           proxy_ws req (target entry) = None))
   \<and> (snd (on_upgrade proxy_ws db req) = Tunnel
      \<or> snd (on_upgrade proxy_ws db req) = End (''HTTP/1.1 400 Bad Request'' @ crlf @ crlf)
      \<or> snd (on_upgrade proxy_ws db req) = End (''HTTP/1.1 404 Not Found'' @ crlf @ crlf)
      \<or> snd (on_upgrade proxy_ws db req) = End (''HTTP/1.1 502 Bad Gateway'' @ crlf @ crlf))"
proof -
  have A: "headers_host req = None \<or> headers_host req = Some [] \<longrightarrow>
      snd (on_upgrade proxy_ws db req) = End (''HTTP/1.1 400 Bad Request'' @ crlf @ crlf)"
    unfolding on_upgrade_def Let_def by auto
  have B: "\<forall>h. headers_host req = Some h \<and> h \<noteq> [] \<and> db (split0 CHR ''.'' h) = None \<longrightarrow>
        snd (on_upgrade proxy_ws db req) = End (''HTTP/1.1 404 Not Found'' @ crlf @ crlf)"
    unfolding on_upgrade_def Let_def by auto
  have C: "\<forall>h entry. headers_host req = Some h \<and> h \<noteq> [] \<and>
        db (split0 CHR ''.'' h) = Some entry \<and>
        (target entry = [] \<or> proxy_ws req (target entry) \<noteq> None) \<longrightarrow>
        snd (on_upgrade proxy_ws db req) = End (''HTTP/1.1 502 Bad Gateway'' @ crlf @ crlf)"
    unfolding on_upgrade_def Let_def by auto
  have D: "snd (on_upgrade proxy_ws db req) = Tunnel \<longrightarrow>
        (\<exists>h entry. headers_host req = Some h \<and> h \<noteq> [] \<and>
           db (split0 CHR ''.'' h) = Some entry \<and> target entry \<noteq> [] \<and>
           proxy_ws req (target entry) = None)"
    unfolding on_upgrade_def Let_def by (auto split: option.splits if_splits)
  have E: "snd (on_upgrade proxy_ws db req) = Tunnel
      \<or> snd (on_upgrade proxy_ws db req) = End (''HTTP/1.1 400 Bad Request'' @ crlf @ crlf)
      \<or> snd (on_upgrade proxy_ws db req) = End (''HTTP/1.1 404 Not Found'' @ crlf @ crlf)
      \<or> snd (on_upgrade proxy_ws db req) = End (''HTTP/1.1 502 Bad Gateway'' @ crlf @ crlf)"
    unfolding on_upgrade_def Let_def by (simp split: option.splits)
  from A B C D E show ?thesis by blast
qed

theorem C8_upgrade_failure_lines_witness:
  "snd (on_upgrade (\<lambda>_ _. Some ''connect ECONNREFUSED 10.0.0.5:80'')
      [''web1'' \<mapsto> \<lparr>containerName = ''web1'', ipAddress = ''10.0.0.5'', defaultPort = Num 80,
                      target = ''http://10.0.0.5:80''\<rparr>]
      \<lparr>hostname = None, headers_host = None\<rparr>)
    = End (''HTTP/1.1 400 Bad Request'' @ [CHR 0x0D, CHR 0x0A, CHR 0x0D, CHR 0x0A])
   \<and> snd (on_upgrade (\<lambda>_ _. Some ''connect ECONNREFUSED 10.0.0.5:80'')
      [''web1'' \<mapsto> \<lparr>containerName = ''web1'', ipAddress = ''10.0.0.5'', defaultPort = Num 80,
                      target = ''http://10.0.0.5:80''\<rparr>]
      \<lparr>hostname = Some ''web1.localhost'', headers_host = Some ''web1.localhost''\<rparr>)
    = End (''HTTP/1.1 502 Bad Gateway'' @ [CHR 0x0D, CHR 0x0A, CHR 0x0D, CHR 0x0A])"
  using C8_upgrade_failure_lines
    [of "\<lparr>hostname = None, headers_host = None\<rparr>"
        "\<lambda>_ _. Some ''connect ECONNREFUSED 10.0.0.5:80''"
        "[''web1'' \<mapsto> \<lparr>containerName = ''web1'', ipAddress = ''10.0.0.5'', defaultPort = Num 80,
                      target = ''http://10.0.0.5:80''\<rparr>]"]
    C8_upgrade_failure_lines
    [of "\<lparr>hostname = Some ''web1.localhost'', headers_host = Some ''web1.localhost''\<rparr>"
        "\<lambda>_ _. Some ''connect ECONNREFUSED 10.0.0.5:80''"
        "[''web1'' \<mapsto> \<lparr>containerName = ''web1'', ipAddress = ''10.0.0.5'', defaultPort = Num 80,
                      target = ''http://10.0.0.5:80''\<rparr>]"]
  by (simp add: crlf_def split0_def)

section \<open>Discovery: what reaches the registry\<close>

text \<open>
  Claim C4. The handler never lets an exception escape, and it leaves the registry as it was
  for a falsy or unparsable chunk, for an event that is not a container start, for a start
  event without actor or identifier, for an inspection that is rejected or lacks the fields
  the handler reads, for an inspection without usable address, and for one without a usable
  TCP port. A changed registry implies the full success path: a start event with an
  identifier, a successful inspection, a usable address and a resolved port other than 0.
\<close>

theorem C4_failures_leave_registry:
  "(\<exists>out db'. on_data docker chunk db = Inr (out, db'))
   \<and> (chunk = Falsy \<or> chunk = Unparsable \<or> chunk = JsonNull \<longrightarrow>
        (\<exists>out. on_data docker chunk db = Inr (out, db)))
   \<and> (\<forall>event. chunk = JsonEvent event \<and>
        (Type event \<noteq> Some ''container'' \<or> Action event \<noteq> Some ''start'') \<longrightarrow>
        (\<exists>out. on_data docker chunk db = Inr (out, db)))
   \<and> (\<forall>event. chunk = JsonEvent event \<and>
        (Actor event = None \<or> (\<exists>a. Actor event = Some a \<and> (ID a = None \<or> ID a = Some []))) \<longrightarrow>
        (\<exists>out. on_data docker chunk db = Inr (out, db)))
   \<and> (\<forall>event a containerId. chunk = JsonEvent event \<and> Actor event = Some a \<and>
        ID a = Some containerId \<and>
        ((\<exists>e. docker containerId = Inl e) \<or>
         (\<exists>info. docker containerId = Inr info \<and>
            (Name info = None \<or> NetworkSettings info = None \<or> Config info = None \<or>
             (\<exists>ns. NetworkSettings info = Some ns \<and> first_ipAddress (Networks ns) = None) \<or>
             (\<exists>cfg ports. Config info = Some cfg \<and>
                ports = (case ExposedPorts cfg of None \<Rightarrow> [] | Some ps \<Rightarrow> ps) \<and>
                (find (\<lambda>port. endsWith port ''/tcp'') (map fst ports) = None \<or>
                 select_defaultPort ports = None \<or> select_defaultPort ports = Some (Num 0)))))) \<longrightarrow>
        (\<exists>out. on_data docker chunk db = Inr (out, db)))
   \<and> (\<forall>out db'. on_data docker chunk db = Inr (out, db') \<and> db' \<noteq> db \<longrightarrow>
        (\<exists>event a containerId info name ns ip cfg port.
           chunk = JsonEvent event \<and> Type event = Some ''container'' \<and>
           Action event = Some ''start'' \<and> Actor event = Some a \<and>
           ID a = Some containerId \<and> containerId \<noteq> [] \<and>
           docker containerId = Inr info \<and> Name info = Some name \<and>
           NetworkSettings info = Some ns \<and> first_ipAddress (Networks ns) = Some ip \<and>
           Config info = Some cfg \<and>
           select_defaultPort (case ExposedPorts cfg of None \<Rightarrow> [] | Some ps \<Rightarrow> ps) = Some port \<and>
           port \<noteq> Num 0 \<and>
           db' = db(derive_containerName name \<mapsto>
                    \<lparr>containerName = derive_containerName name, ipAddress = ip,
                     defaultPort = port,
                     target = ''http://'' @ ip @ '':'' @ number_text port\<rparr>)))"
proof -
  have no_tcp: "select_defaultPort ports = None"
    if "find (\<lambda>port. endsWith port ''/tcp'') (map fst ports) = None" for ports
  proof -
    have eighty: "endsWith ''80/tcp'' ''/tcp''"
      by (simp add: endsWith_def)
    from that have "\<not> endsWith k ''/tcp''" if "k \<in> fst ` set ports" for k
      using that by (auto simp: find_None_iff)
    with eighty have "''80/tcp'' \<notin> fst ` set ports"
      by blast
    with that show ?thesis
      by (simp add: select_defaultPort_def map_of_eq_None_iff)
  qed
  have A: "\<exists>out db'. on_data docker chunk db = Inr (out, db')"
    by (rule on_data_total)
  have B: "chunk = Falsy \<or> chunk = Unparsable \<or> chunk = JsonNull \<longrightarrow>
        (\<exists>out. on_data docker chunk db = Inr (out, db))"
    by (auto intro!: on_data_discarded dest!: handle_event_Some_full)
  have C: "\<forall>event. chunk = JsonEvent event \<and>
        (Type event \<noteq> Some ''container'' \<or> Action event \<noteq> Some ''start'') \<longrightarrow>
        (\<exists>out. on_data docker chunk db = Inr (out, db))"
    by (auto intro!: on_data_discarded dest!: handle_event_Some_full)
  have D: "\<forall>event. chunk = JsonEvent event \<and>
        (Actor event = None \<or> (\<exists>a. Actor event = Some a \<and> (ID a = None \<or> ID a = Some []))) \<longrightarrow>
        (\<exists>out. on_data docker chunk db = Inr (out, db))"
    by (auto intro!: on_data_discarded dest!: handle_event_Some_full)
  have E: "\<forall>event a containerId. chunk = JsonEvent event \<and> Actor event = Some a \<and>
        ID a = Some containerId \<and>
        ((\<exists>e. docker containerId = Inl e) \<or>
         (\<exists>info. docker containerId = Inr info \<and>
            (Name info = None \<or> NetworkSettings info = None \<or> Config info = None \<or>
             (\<exists>ns. NetworkSettings info = Some ns \<and> first_ipAddress (Networks ns) = None) \<or>
             (\<exists>cfg ports. Config info = Some cfg \<and>
                ports = (case ExposedPorts cfg of None \<Rightarrow> [] | Some ps \<Rightarrow> ps) \<and>
                (find (\<lambda>port. endsWith port ''/tcp'') (map fst ports) = None \<or>
                 select_defaultPort ports = None \<or> select_defaultPort ports = Some (Num 0)))))) \<longrightarrow>
        (\<exists>out. on_data docker chunk db = Inr (out, db))"
    using no_tcp
    by (auto intro!: on_data_discarded dest!: handle_event_Some_full)
  have F: "\<forall>out db'. on_data docker chunk db = Inr (out, db') \<and> db' \<noteq> db \<longrightarrow>
        (\<exists>event a containerId info name ns ip cfg port.
           chunk = JsonEvent event \<and> Type event = Some ''container'' \<and>
           Action event = Some ''start'' \<and> Actor event = Some a \<and>
           ID a = Some containerId \<and> containerId \<noteq> [] \<and>
           docker containerId = Inr info \<and> Name info = Some name \<and>
           NetworkSettings info = Some ns \<and> first_ipAddress (Networks ns) = Some ip \<and>
           Config info = Some cfg \<and>
           select_defaultPort (case ExposedPorts cfg of None \<Rightarrow> [] | Some ps \<Rightarrow> ps) = Some port \<and>
           port \<noteq> Num 0 \<and>
           db' = db(derive_containerName name \<mapsto>
                    \<lparr>containerName = derive_containerName name, ipAddress = ip,
                     defaultPort = port,
                     target = ''http://'' @ ip @ '':'' @ number_text port\<rparr>))"
  proof (intro allI impI, elim conjE)
    fix out db'
    assume r: "on_data docker chunk db = Inr (out, db')" and changed: "db' \<noteq> db"
    from on_data_cases [OF r] changed obtain out' entry where
      h: "handle_event docker chunk = Inr (out', Some entry)"
      and d: "db' = db(containerName entry \<mapsto> entry)"
      by auto
    from handle_event_Some_full [OF h] d
    show "\<exists>event a containerId info name ns ip cfg port.
           chunk = JsonEvent event \<and> Type event = Some ''container'' \<and>
           Action event = Some ''start'' \<and> Actor event = Some a \<and>
           ID a = Some containerId \<and> containerId \<noteq> [] \<and>
           docker containerId = Inr info \<and> Name info = Some name \<and>
           NetworkSettings info = Some ns \<and> first_ipAddress (Networks ns) = Some ip \<and>
           Config info = Some cfg \<and>
           select_defaultPort (case ExposedPorts cfg of None \<Rightarrow> [] | Some ps \<Rightarrow> ps) = Some port \<and>
           port \<noteq> Num 0 \<and>
           db' = db(derive_containerName name \<mapsto>
                    \<lparr>containerName = derive_containerName name, ipAddress = ip,
                     defaultPort = port,
                     target = ''http://'' @ ip @ '':'' @ number_text port\<rparr>)"
      by force
  qed
  from A B C D E F show ?thesis by blast
qed

theorem C4_failures_leave_registry_witness:
  "(\<exists>out. on_data (\<lambda>_. Inl DockerError)
       (JsonEvent \<lparr>Type = Some ''container'', Action = Some ''start'',
                   Actor = Some \<lparr>ID = None\<rparr>\<rparr>)
       [''web1'' \<mapsto> \<lparr>containerName = ''web1'', ipAddress = ''10.0.0.5'', defaultPort = Num 80,
                       target = ''http://10.0.0.5:80''\<rparr>]
     = Inr (out, [''web1'' \<mapsto> \<lparr>containerName = ''web1'', ipAddress = ''10.0.0.5'',
                                  defaultPort = Num 80, target = ''http://10.0.0.5:80''\<rparr>]))
   \<and> (\<exists>out. on_data
       (\<lambda>_. Inr \<lparr>Name = Some ''/dns'',
                 NetworkSettings = Some \<lparr>Networks =
                   Some [(''bridge'', Some \<lparr>IPAddress = Some ''10.0.0.8''\<rparr>)]\<rparr>,
                 Config = Some \<lparr>ExposedPorts = Some [(''53/udp'', ())]\<rparr>\<rparr>)
       (JsonEvent \<lparr>Type = Some ''container'', Action = Some ''start'',
                   Actor = Some \<lparr>ID = Some ''c3''\<rparr>\<rparr>)
       Map.empty
     = Inr (out, Map.empty))"
  using C4_failures_leave_registry
    [of "\<lambda>_. Inl DockerError"
        "JsonEvent \<lparr>Type = Some ''container'', Action = Some ''start'',
                   Actor = Some \<lparr>ID = None\<rparr>\<rparr>"
        "[''web1'' \<mapsto> \<lparr>containerName = ''web1'', ipAddress = ''10.0.0.5'', defaultPort = Num 80,
                       target = ''http://10.0.0.5:80''\<rparr>]"]
    C4_failures_leave_registry
    [of "\<lambda>_. Inr \<lparr>Name = Some ''/dns'',
                 NetworkSettings = Some \<lparr>Networks =
                   Some [(''bridge'', Some \<lparr>IPAddress = Some ''10.0.0.8''\<rparr>)]\<rparr>,
                 Config = Some \<lparr>ExposedPorts = Some [(''53/udp'', ())]\<rparr>\<rparr>"
        "JsonEvent \<lparr>Type = Some ''container'', Action = Some ''start'',
                   Actor = Some \<lparr>ID = Some ''c3''\<rparr>\<rparr>"
        Map.empty]
  by (simp add: endsWith_def)

text \<open>
  Claim C5. When two start events are processed with success, one after the other (each
  reaches \<^verbatim>\<open>db.set\<close>, with the records \<open>entry1\<close> and \<open>entry2\<close>), and their inspections derive
  the same service name, the registry holds under that name exactly the record of the second
  event, with its name, address, port and target; the registry is what it would be had only
  the second event been processed.
\<close>

theorem C5_last_write_wins:
  assumes first: "handle_event docker1 chunk1 = Inr (out1, Some entry1)"
    and second: "handle_event docker2 chunk2 = Inr (out2, Some entry2)"
    and same: "containerName entry1 = containerName entry2"
  shows "(\<exists>o1 o2. on_data docker1 chunk1 db = Inr (o1, db(containerName entry1 \<mapsto> entry1)) \<and>
            on_data docker2 chunk2 (db(containerName entry1 \<mapsto> entry1)) =
              Inr (o2, db(containerName entry2 \<mapsto> entry2)))
       \<and> run db [Data docker1 chunk1, Data docker2 chunk2] (containerName entry2) = Some entry2
       \<and> run db [Data docker1 chunk1, Data docker2 chunk2] = run db [Data docker2 chunk2]"
proof -
  have one: "on_data docker1 chunk1 db =
      Inr (out1 @ [Log ''Current container mappings:''], db(containerName entry1 \<mapsto> entry1))"
    by (rule on_data_registered [OF first])
  have two: "on_data docker2 chunk2 db' =
      Inr (out2 @ [Log ''Current container mappings:''], db'(containerName entry2 \<mapsto> entry2))"
    for db'
    by (rule on_data_registered [OF second])
  have over: "(db(containerName entry1 \<mapsto> entry1))(containerName entry2 \<mapsto> entry2)
      = db(containerName entry2 \<mapsto> entry2)"
    using same by simp
  from one two over show ?thesis
    by (simp add: run_def)
qed

theorem C5_last_write_wins_witness:
  "run Map.empty
     [Data (\<lambda>_. Inr \<lparr>Name = Some ''/web1'',
                NetworkSettings = Some \<lparr>Networks =
                  Some [(''bridge'', Some \<lparr>IPAddress = Some ''10.0.0.5''\<rparr>)]\<rparr>,
                Config = Some \<lparr>ExposedPorts = Some [(''80/tcp'', ())]\<rparr>\<rparr>)
           (JsonEvent \<lparr>Type = Some ''container'', Action = Some ''start'',
                       Actor = Some \<lparr>ID = Some ''c1''\<rparr>\<rparr>),
      Data (\<lambda>_. Inr \<lparr>Name = Some ''web1'',
                NetworkSettings = Some \<lparr>Networks =
                  Some [(''bridge'', Some \<lparr>IPAddress = Some ''10.0.0.6''\<rparr>)]\<rparr>,
                Config = Some \<lparr>ExposedPorts = Some [(''3000/tcp'', ())]\<rparr>\<rparr>)
           (JsonEvent \<lparr>Type = Some ''container'', Action = Some ''start'',
                       Actor = Some \<lparr>ID = Some ''c2''\<rparr>\<rparr>)]
     ''web1''
   = Some \<lparr>containerName = ''web1'', ipAddress = ''10.0.0.6'', defaultPort = Num 3000,
            target = ''http://10.0.0.6:3000''\<rparr>"
proof -
  have first: "handle_event (\<lambda>_. Inr \<lparr>Name = Some ''/web1'',
                NetworkSettings = Some \<lparr>Networks =
                  Some [(''bridge'', Some \<lparr>IPAddress = Some ''10.0.0.5''\<rparr>)]\<rparr>,
                Config = Some \<lparr>ExposedPorts = Some [(''80/tcp'', ())]\<rparr>\<rparr>)
           (JsonEvent \<lparr>Type = Some ''container'', Action = Some ''start'',
                       Actor = Some \<lparr>ID = Some ''c1''\<rparr>\<rparr>)
     = Inr ([Log ''Container /web1 started'',
             Log (registering_message ''web1'' ''10.0.0.5'' (Num 80) ''http://10.0.0.5:80'')],
            Some \<lparr>containerName = ''web1'', ipAddress = ''10.0.0.5'', defaultPort = Num 80,
                  target = ''http://10.0.0.5:80''\<rparr>)"
    by (simp add: handle_event_def inspect_container_def first_ipAddress_def Let_def
          select_defaultPort_def derive_containerName_def startsWith_def
          number_text_def nat_text_def string_of_nat.simps digitChar_def)
  have second: "handle_event (\<lambda>_. Inr \<lparr>Name = Some ''web1'',
                NetworkSettings = Some \<lparr>Networks =
                  Some [(''bridge'', Some \<lparr>IPAddress = Some ''10.0.0.6''\<rparr>)]\<rparr>,
                Config = Some \<lparr>ExposedPorts = Some [(''3000/tcp'', ())]\<rparr>\<rparr>)
           (JsonEvent \<lparr>Type = Some ''container'', Action = Some ''start'',
                       Actor = Some \<lparr>ID = Some ''c2''\<rparr>\<rparr>)
     = Inr ([Log ''Container web1 started'',
             Log (registering_message ''web1'' ''10.0.0.6'' (Num 3000) ''http://10.0.0.6:3000'')],
            Some \<lparr>containerName = ''web1'', ipAddress = ''10.0.0.6'', defaultPort = Num 3000,
                  target = ''http://10.0.0.6:3000''\<rparr>)"
    by (simp add: handle_event_def inspect_container_def first_ipAddress_def Let_def
          select_defaultPort_def derive_containerName_def startsWith_def endsWith_def
          split0_def parseInt_def isWhiteSpace_def isDigit_def digitValue_def
          to_number_def round_double_def bits_le_iff
          number_text_def nat_text_def string_of_nat.simps digitChar_def)
  have same: "containerName \<lparr>containerName = ''web1'', ipAddress = ''10.0.0.5'',
                   defaultPort = Num 80, target = ''http://10.0.0.5:80''\<rparr>
      = containerName \<lparr>containerName = ''web1'', ipAddress = ''10.0.0.6'',
                   defaultPort = Num 3000, target = ''http://10.0.0.6:3000''\<rparr>"
    by simp
  from C5_last_write_wins [OF first second same, of Map.empty]
  have "run Map.empty
     [Data (\<lambda>_. Inr \<lparr>Name = Some ''/web1'',
                NetworkSettings = Some \<lparr>Networks =
                  Some [(''bridge'', Some \<lparr>IPAddress = Some ''10.0.0.5''\<rparr>)]\<rparr>,
                Config = Some \<lparr>ExposedPorts = Some [(''80/tcp'', ())]\<rparr>\<rparr>)
           (JsonEvent \<lparr>Type = Some ''container'', Action = Some ''start'',
                       Actor = Some \<lparr>ID = Some ''c1''\<rparr>\<rparr>),
      Data (\<lambda>_. Inr \<lparr>Name = Some ''web1'',
                NetworkSettings = Some \<lparr>Networks =
                  Some [(''bridge'', Some \<lparr>IPAddress = Some ''10.0.0.6''\<rparr>)]\<rparr>,
                Config = Some \<lparr>ExposedPorts = Some [(''3000/tcp'', ())]\<rparr>\<rparr>)
           (JsonEvent \<lparr>Type = Some ''container'', Action = Some ''start'',
                       Actor = Some \<lparr>ID = Some ''c2''\<rparr>\<rparr>)]
     (containerName \<lparr>containerName = ''web1'', ipAddress = ''10.0.0.6'', defaultPort = Num 3000,
            target = ''http://10.0.0.6:3000''\<rparr>)
   = Some \<lparr>containerName = ''web1'', ipAddress = ''10.0.0.6'', defaultPort = Num 3000,
            target = ''http://10.0.0.6:3000''\<rparr>"
    by blast
  then show ?thesis
    by (simp only: service.simps)
qed

section \<open>Names from discovery to the router\<close>

text \<open>
  Claim C6. The key under which discovery registers a container is the reported name without
  its leading \<^verbatim>\<open>/\<close>; the name that the router looks up is the part of the request's hostname
  before the first \<^verbatim>\<open>.\<close>; so once a start event is registered, a request whose hostname has
  that name as its first label is forwarded to the target of the registered record. The
  witness is the scenario of the claim: \<^verbatim>\<open>/web1\<close> is registered under \<^verbatim>\<open>web1\<close>, and a request
  for \<^verbatim>\<open>web1.localhost\<close> is relayed from \<^verbatim>\<open>http://10.0.0.5:80\<close>.
\<close>

theorem C6_names_compose:
  assumes start: "Type event = Some ''container''" "Action event = Some ''start''"
      "Actor event = Some a" "ID a = Some containerId" "containerId \<noteq> []"
    and inspected: "docker containerId = Inr info" "Name info = Some name"
    and registered: "handle_event docker (JsonEvent event) = Inr (out, Some entry)"
    and request: "hostname req = Some h" "split0 CHR ''.'' h = derive_containerName name"
  shows "(\<forall>rest. name = CHR ''/'' # rest \<longrightarrow> derive_containerName name = rest)
       \<and> ((\<forall>rest. name \<noteq> CHR ''/'' # rest) \<longrightarrow> derive_containerName name = name)
       \<and> (\<forall>label rest. h = label @ CHR ''.'' # rest \<and> CHR ''.'' \<notin> set label \<longrightarrow>
            split0 CHR ''.'' h = label)
       \<and> (CHR ''.'' \<notin> set h \<longrightarrow> split0 CHR ''.'' h = h)
       \<and> containerName entry = derive_containerName name
       \<and> (\<exists>out'. on_data docker (JsonEvent event) db =
             Inr (out', db(derive_containerName name \<mapsto> entry)))
       \<and> reverseProxyApp proxy_web (db(derive_containerName name \<mapsto> entry)) req =
           (case proxy_web req (target entry) of
              Response code content \<Rightarrow>
                Inr ([Log (''Received request for hostname: '' @ h @ '', subdomain: ''
                           @ split0 CHR ''.'' h),
                      Log (''Forwarding request to '' @ target entry)],
                     Relayed code content)
            | Failure message \<Rightarrow>
                Inr ([Log (''Received request for hostname: '' @ h @ '', subdomain: ''
                           @ split0 CHR ''.'' h),
                      Log (''Forwarding request to '' @ target entry),
                      Error (''Proxy web error: '' @ message)],
                     Reply 502 (Text ''Bad gateway.''))
            | Aborted code message \<Rightarrow>
                Inr ([Log (''Received request for hostname: '' @ h @ '', subdomain: ''
                           @ split0 CHR ''.'' h),
                      Log (''Forwarding request to '' @ target entry),
                      Error (''Proxy web error: '' @ message)],
                     Interrupted code))"
proof -
  have A: "\<forall>rest. name = CHR ''/'' # rest \<longrightarrow> derive_containerName name = rest"
    by (simp add: derive_containerName_def startsWith_def)
  have B: "(\<forall>rest. name \<noteq> CHR ''/'' # rest) \<longrightarrow> derive_containerName name = name"
    by (cases name) (auto simp: derive_containerName_def startsWith_def)
  have C: "\<forall>label rest. h = label @ CHR ''.'' # rest \<and> CHR ''.'' \<notin> set label \<longrightarrow>
            split0 CHR ''.'' h = label"
    by (auto simp: split0_def takeWhile_append)
  have D: "CHR ''.'' \<notin> set h \<longrightarrow> split0 CHR ''.'' h = h"
    by (auto simp: split0_def)
  have "inspect_container docker containerId = Inr (out, Some entry)"
    using registered by (simp add: handle_event_start [OF start] split: sum.splits prod.splits)
  from inspect_container_SomeD [of docker containerId, OF this] inspected
  have E: "containerName entry = derive_containerName name"
    and nonempty: "target entry \<noteq> []"
    by auto
  from on_data_registered [OF registered, of db] E
  have F: "\<exists>out'. on_data docker (JsonEvent event) db =
             Inr (out', db(derive_containerName name \<mapsto> entry))"
    by simp
  have "(db(derive_containerName name \<mapsto> entry)) (split0 CHR ''.'' h) = Some entry"
    using request by simp
  from reverseProxyApp_forward
    [of req h "db(derive_containerName name \<mapsto> entry)" entry proxy_web,
     OF request(1) this nonempty]
  have G: "reverseProxyApp proxy_web (db(derive_containerName name \<mapsto> entry)) req =
           (case proxy_web req (target entry) of
              Response code content \<Rightarrow>
                Inr ([Log (''Received request for hostname: '' @ h @ '', subdomain: ''
                           @ split0 CHR ''.'' h),
                      Log (''Forwarding request to '' @ target entry)],
                     Relayed code content)
            | Failure message \<Rightarrow>
                Inr ([Log (''Received request for hostname: '' @ h @ '', subdomain: ''
                           @ split0 CHR ''.'' h),
                      Log (''Forwarding request to '' @ target entry),
                      Error (''Proxy web error: '' @ message)],
                     Reply 502 (Text ''Bad gateway.''))
            | Aborted code message \<Rightarrow>
                Inr ([Log (''Received request for hostname: '' @ h @ '', subdomain: ''
                           @ split0 CHR ''.'' h),
                      Log (''Forwarding request to '' @ target entry),
                      Error (''Proxy web error: '' @ message)],
                     Interrupted code))" .
  from A B C D E F G show ?thesis by blast
qed

theorem C6_names_compose_witness:
  "(\<exists>out'. on_data
      (\<lambda>_. Inr \<lparr>Name = Some ''/web1'',
                NetworkSettings = Some \<lparr>Networks =
                  Some [(''bridge'', Some \<lparr>IPAddress = Some ''10.0.0.5''\<rparr>)]\<rparr>,
                Config = Some \<lparr>ExposedPorts = Some [(''80/tcp'', ()), (''8080/tcp'', ())]\<rparr>\<rparr>)
      (JsonEvent \<lparr>Type = Some ''container'', Action = Some ''start'',
                  Actor = Some \<lparr>ID = Some ''c1''\<rparr>\<rparr>)
      Map.empty
    = Inr (out', [''web1'' \<mapsto> \<lparr>containerName = ''web1'', ipAddress = ''10.0.0.5'',
                                defaultPort = Num 80, target = ''http://10.0.0.5:80''\<rparr>]))
   \<and> reverseProxyApp
        (\<lambda>_ url. if url = ''http://10.0.0.5:80'' then Response 200 ''hello''
                  else Failure ''other target'')
        [''web1'' \<mapsto> \<lparr>containerName = ''web1'', ipAddress = ''10.0.0.5'',
                        defaultPort = Num 80, target = ''http://10.0.0.5:80''\<rparr>]
        \<lparr>hostname = Some ''web1.localhost'', headers_host = Some ''web1.localhost''\<rparr>
     = Inr ([Log ''Received request for hostname: web1.localhost, subdomain: web1'',
             Log ''Forwarding request to http://10.0.0.5:80''],
            Relayed 200 ''hello'')"
proof -
  have registered: "handle_event (\<lambda>_. Inr \<lparr>Name = Some ''/web1'',
                NetworkSettings = Some \<lparr>Networks =
                  Some [(''bridge'', Some \<lparr>IPAddress = Some ''10.0.0.5''\<rparr>)]\<rparr>,
                Config = Some \<lparr>ExposedPorts = Some [(''80/tcp'', ()), (''8080/tcp'', ())]\<rparr>\<rparr>)
           (JsonEvent \<lparr>Type = Some ''container'', Action = Some ''start'',
                       Actor = Some \<lparr>ID = Some ''c1''\<rparr>\<rparr>)
     = Inr ([Log ''Container /web1 started'',
             Log (registering_message ''web1'' ''10.0.0.5'' (Num 80) ''http://10.0.0.5:80'')],
            Some \<lparr>containerName = ''web1'', ipAddress = ''10.0.0.5'', defaultPort = Num 80,
                  target = ''http://10.0.0.5:80''\<rparr>)"
    by (simp add: handle_event_def inspect_container_def first_ipAddress_def Let_def
          select_defaultPort_def derive_containerName_def startsWith_def
          number_text_def nat_text_def string_of_nat.simps digitChar_def)
  have label: "split0 CHR ''.'' ''web1.localhost'' = derive_containerName ''/web1''"
    by (simp add: split0_def derive_containerName_def startsWith_def)
  from C6_names_compose
    [of "\<lparr>Type = Some ''container'', Action = Some ''start'',
                       Actor = Some \<lparr>ID = Some ''c1''\<rparr>\<rparr>"
        "\<lparr>ID = Some ''c1''\<rparr>" "''c1''" _ _ "''/web1''" _ _
        "\<lparr>hostname = Some ''web1.localhost'', headers_host = Some ''web1.localhost''\<rparr>"
        "''web1.localhost''" Map.empty
        "\<lambda>_ url. if url = ''http://10.0.0.5:80'' then Response 200 ''hello''
                  else Failure ''other target''",
     OF _ _ _ _ _ _ _ registered _ label]
  show ?thesis
    by (simp add: split0_def derive_containerName_def startsWith_def)
qed

section \<open>The registry over sequences of inputs\<close>

lemma dom_step: "dom db \<subseteq> dom (step db i)"
  using step_cases [of db i] by auto

lemma dom_run: "dom db \<subseteq> dom (run db inputs)"
proof (induction inputs arbitrary: db)
  case Nil
  show ?case by (simp add: run_def)
next
  case (Cons i inputs)
  have "dom db \<subseteq> dom (step db i)" by (rule dom_step)
  also have "\<dots> \<subseteq> dom (run (step db i) inputs)" by (rule Cons.IH)
  finally show ?case by (simp add: run_def)
qed

lemma run_append: "run db (xs @ ys) = run (run db xs) ys"
  by (simp add: run_def)

text \<open>
  Claim C9. No input of the core removes a registry entry: the set of registered names after
  an event, a request or an upgrade contains the set before; it only grows along any
  sequence of inputs; a name that is registered stays registered; and an input either leaves
  the entry of a name as it was or sets it to the record of a start event, so that a name
  goes from unknown to registered and from registered to registered only.
\<close>

theorem C9_entries_never_removed:
  "dom db \<subseteq> dom (step db i)
   \<and> dom db \<subseteq> dom (run db inputs)
   \<and> dom (run db inputs) \<subseteq> dom (run db (inputs @ later))
   \<and> (\<forall>n entry. db n = Some entry \<longrightarrow> (\<exists>entry'. run db inputs n = Some entry'))
   \<and> (\<forall>n. step db i n = db n \<or> (\<exists>entry. step db i n = Some entry \<and> containerName entry = n))"
proof -
  have A: "dom db \<subseteq> dom (step db i)" by (rule dom_step)
  have B: "dom db \<subseteq> dom (run db inputs)" by (rule dom_run)
  have C: "dom (run db inputs) \<subseteq> dom (run db (inputs @ later))"
    unfolding run_append by (rule dom_run)
  have D: "\<forall>n entry. db n = Some entry \<longrightarrow> (\<exists>entry'. run db inputs n = Some entry')"
    using B by (auto simp: dom_def subset_iff)
  have E: "\<forall>n. step db i n = db n \<or> (\<exists>entry. step db i n = Some entry \<and> containerName entry = n)"
    using step_cases [of db i] by auto
  from A B C D E show ?thesis by blast
qed

theorem C9_entries_never_removed_witness:
  "\<exists>entry'. run
     [''web1'' \<mapsto> \<lparr>containerName = ''web1'', ipAddress = ''10.0.0.5'', defaultPort = Num 80,
                     target = ''http://10.0.0.5:80''\<rparr>]
     [Data (\<lambda>_. Inl DockerError)
        (JsonEvent \<lparr>Type = Some ''container'', Action = Some ''die'',
                    Actor = Some \<lparr>ID = Some ''c1''\<rparr>\<rparr>),
      Request (\<lambda>_ _. Failure ''connect ECONNREFUSED 10.0.0.5:80'')
        \<lparr>hostname = Some ''web1.localhost'', headers_host = Some ''web1.localhost''\<rparr>,
      Upgrade (\<lambda>_ _. Some ''connect ECONNREFUSED 10.0.0.5:80'')
        \<lparr>hostname = Some ''web1.localhost'', headers_host = Some ''web1.localhost''\<rparr>]
     ''web1'' = Some entry'"
  using C9_entries_never_removed
    [of "[''web1'' \<mapsto> \<lparr>containerName = ''web1'', ipAddress = ''10.0.0.5'', defaultPort = Num 80,
                     target = ''http://10.0.0.5:80''\<rparr>]"
        "Upgrade (\<lambda>_ _. None) \<lparr>hostname = None, headers_host = None\<rparr>"
        "[Data (\<lambda>_. Inl DockerError)
        (JsonEvent \<lparr>Type = Some ''container'', Action = Some ''die'',
                    Actor = Some \<lparr>ID = Some ''c1''\<rparr>\<rparr>),
      Request (\<lambda>_ _. Failure ''connect ECONNREFUSED 10.0.0.5:80'')
        \<lparr>hostname = Some ''web1.localhost'', headers_host = Some ''web1.localhost''\<rparr>,
      Upgrade (\<lambda>_ _. Some ''connect ECONNREFUSED 10.0.0.5:80'')
        \<lparr>hostname = Some ''web1.localhost'', headers_host = Some ''web1.localhost''\<rparr>]"
        "[]"]
  by simp





end
